theory Spec2Isabelle
  imports Main
begin

section \<open>The admin blueprint of the journalist interface\<close>

text \<open>
  The development embeds the view functions of
  \<^verbatim>\<open>securedrop/journalist_app/admin.py\<close>. A view function becomes a function
  from the request and the application state to a response and the new state.
  What a view function does beyond returning is explicit in the state: the rows
  of the \<^verbatim>\<open>journalists\<close> table, the unit of work of the database session, the
  flashed messages, the lines written to the application log and the calls made
  to the database layer, and the files written under the application root.
\<close>

subsection \<open>Python values\<close>

text \<open>The exceptions the view functions name, and those Python raises under them.\<close>

datatype exn =
    PasswordError
  | InvalidUsernameException string
  | IntegrityError string
  | NoResultFound
  | MultipleResultsFound
  | TypeError string
  | AttributeError string
  | BadRequestKeyError string

text \<open>\<^verbatim>\<open>needle in haystack\<close> on strings.\<close>

fun str_in :: "string \<Rightarrow> string \<Rightarrow> bool" where
  "str_in needle [] = (needle = [])"
| "str_in needle (c # cs) =
     (take (length needle) (c # cs) = needle \<or> str_in needle cs)"

text \<open>\<^verbatim>\<open>str(n)\<close> on integers, for the \<^verbatim>\<open>{}\<close> of a format string.\<close>

definition digit_char :: "nat \<Rightarrow> char" where
  "digit_char d = ''0123456789'' ! d"

fun str_nat :: "nat \<Rightarrow> string" where
  "str_nat n = (if n < 10 then [digit_char n] else str_nat (n div 10) @ [digit_char (n mod 10)])"

declare str_nat.simps [simp del]

definition str_int :: "int \<Rightarrow> string" where
  "str_int i = (if i < 0 then CHR ''-'' # str_nat (nat (- i)) else str_nat (nat i))"

text \<open>
  A value that is a key of the table or an argument of a URL: the integer of a
  route's \<^verbatim>\<open><int:user_id>\<close> and of a row's \<^verbatim>\<open>id\<close>, the string of a form
  field or query parameter, or \<^verbatim>\<open>None\<close>.
\<close>

datatype pyval = PyInt int | PyStr string | PyNone

subsection \<open>Requests\<close>

datatype http_method = GET | POST

record request =
  req_method :: http_method
  form :: "string \<rightharpoonup> string"
  args :: "string \<rightharpoonup> string"

text \<open>\<^verbatim>\<open>request.form.get(k)\<close> gives \<^verbatim>\<open>None\<close> for a missing field.\<close>

definition form_get :: "request \<Rightarrow> string \<Rightarrow> string option" where
  "form_get req k = form req k"

text \<open>\<^verbatim>\<open>request.form.get(k, default)\<close>.\<close>

definition form_get_default :: "request \<Rightarrow> string \<Rightarrow> string \<Rightarrow> string" where
  "form_get_default req k d = (case form req k of None \<Rightarrow> d | Some v \<Rightarrow> v)"

text \<open>
  \<^verbatim>\<open>request.form[k]\<close> and \<^verbatim>\<open>request.args[k]\<close> raise for a missing key; the
  framework answers such a request with HTTP 400.
\<close>

definition form_getitem :: "request \<Rightarrow> string \<Rightarrow> exn + string" where
  "form_getitem req k = (case form req k of None \<Rightarrow> Inl (BadRequestKeyError k) | Some v \<Rightarrow> Inr v)"

definition args_getitem :: "request \<Rightarrow> string \<Rightarrow> exn + string" where
  "args_getitem req k = (case args req k of None \<Rightarrow> Inl (BadRequestKeyError k) | Some v \<Rightarrow> Inr v)"

text \<open>
  The truth value of an optional form field, as \<^verbatim>\<open>if\<close> and \<^verbatim>\<open>bool()\<close> take
  it: \<^verbatim>\<open>None\<close> and the empty string are false, every other string is true.
\<close>

definition truthy :: "string option \<Rightarrow> bool" where
  "truthy v = (case v of None \<Rightarrow> False | Some s \<Rightarrow> s \<noteq> [])"

subsection \<open>Accounts and the application state\<close>

text \<open>
  A \<^verbatim>\<open>Journalist\<close> object. The view functions read and write \<^verbatim>\<open>id\<close>,
  \<^verbatim>\<open>username\<close>, \<^verbatim>\<open>is_admin\<close> and \<^verbatim>\<open>is_totp\<close>; the password hash and the
  one-time-password secret are the remaining fields of the account of the data
  model. The \<^verbatim>\<open>id\<close> of an object that was never inserted is \<^verbatim>\<open>None\<close>.
\<close>

record journalist =
  jid :: "int option"
  username :: string
  is_admin :: bool
  pw_hash :: string
  is_totp :: bool
  otp_secret :: string

datatype pending_op = Insert journalist | Update journalist | Delete journalist

datatype db_call =
    QueryAll
  | QueryGet pyval
  | QueryFilterByUsername string
  | SessionAdd
  | SessionDelete
  | SessionCommit
  | SessionRollback

record app_state =
  journalists :: "journalist list"
  pending :: "pending_op list"
  flashes :: "(string \<times> string) list"
  logged :: "string list"
  db_log :: "db_call list"
  files :: "string \<rightharpoonup> string"

datatype url =
    admin_index
  | admin_manage_config
  | admin_new_user_two_factor pyval
  | admin_edit_user int

datatype tmpl_val =
    TStr string
  | TUser "journalist option"
  | TUsers "journalist list"
  | TForm request

datatype response =
    Redirect url
  | Render string "(string \<times> tmpl_val) list"
  | Abort nat
  | Unhandled exn

text \<open>\<^verbatim>\<open>flash(message, category)\<close> and \<^verbatim>\<open>current_app.logger.error(message)\<close>.\<close>

definition flash :: "string \<Rightarrow> string \<Rightarrow> app_state \<Rightarrow> app_state" where
  "flash msg category st = st\<lparr>flashes := flashes st @ [(msg, category)]\<rparr>"

definition logger_error :: "string \<Rightarrow> app_state \<Rightarrow> app_state" where
  "logger_error msg st = st\<lparr>logged := logged st @ [msg]\<rparr>"

text \<open>\<^verbatim>\<open>gettext\<close> in the source locale returns its argument.\<close>

definition gettext :: "string \<Rightarrow> string" where
  "gettext s = s"

subsection \<open>Collaborators outside this module\<close>

text \<open>
  The view functions call into the account model, the form classes and the
  helpers of \<^verbatim>\<open>journalist_app.utils\<close>. Their code is not part of this module, so
  each one is a parameter of the view functions:
  \<^item> \<open>SECUREDROP_ROOT\<close>: the directory of that name in \<^verbatim>\<open>config\<close>;
  \<^item> \<open>LogoForm_validate\<close>: \<^verbatim>\<open>LogoForm().validate_on_submit()\<close>, which gives
    the uploaded image or the errors of the form, field by field;
  \<^item> \<open>validate_on_submit\<close>: \<^verbatim>\<open>NewUserForm().validate_on_submit()\<close>;
  \<^item> \<open>Journalist_init\<close>: the constructor \<^verbatim>\<open>Journalist(username, password,
    is_admin, otp_secret)\<close>, which returns the new object or raises;
  \<^item> \<open>check_username_acceptable\<close>: \<open>Some m\<close> when it raises
    \<^verbatim>\<open>InvalidUsernameException(m)\<close>;
  \<^item> \<open>verify_token\<close>: \<^verbatim>\<open>user.verify_token(token)\<close>;
  \<^item> \<open>regenerate_totp_shared_secret\<close>: the method of that name of an account;
  \<^item> \<open>encode_hotp_secret\<close>: the stored form of a submitted HOTP secret;
  \<^item> \<open>set_diceware_password\<close> and \<open>commit_account_changes\<close>: the helpers of
    \<^verbatim>\<open>journalist_app.utils\<close>, which act on the state; the first receives what
    the view function hands it, an object or \<^verbatim>\<open>None\<close>;
  \<^item> \<open>make_password\<close>: the password \<^verbatim>\<open>make_password(config)\<close> generates;
  \<^item> \<open>pk_of_str\<close>: the integer the storage layer reads a textual key as, when
    it compares it with the integer primary key.
\<close>

record env =
  SECUREDROP_ROOT :: string
  LogoForm_validate :: "request \<Rightarrow> (string \<times> string list) list + string"
  validate_on_submit :: "request \<Rightarrow> bool"
  Journalist_init :: "string \<Rightarrow> string \<Rightarrow> bool \<Rightarrow> string option \<Rightarrow> exn + journalist"
  check_username_acceptable :: "string \<Rightarrow> string option"
  verify_token :: "journalist \<Rightarrow> string \<Rightarrow> bool"
  regenerate_totp_shared_secret :: "journalist \<Rightarrow> journalist"
  encode_hotp_secret :: "string \<Rightarrow> string"
  set_diceware_password :: "journalist option \<Rightarrow> string option \<Rightarrow> app_state \<Rightarrow> exn option \<times> app_state"
  commit_account_changes :: "journalist \<Rightarrow> app_state \<Rightarrow> app_state"
  make_password :: string
  pk_of_str :: "string \<Rightarrow> int option"

subsection \<open>The database session\<close>

definition find_by_id :: "int \<Rightarrow> journalist list \<Rightarrow> journalist option" where
  "find_by_id i rows = find (\<lambda>r. jid r = Some i) rows"

text \<open>
  \<^verbatim>\<open>Journalist.query.get(key)\<close>: the row with that primary key, or \<^verbatim>\<open>None\<close>
  when there is none. A missing row is not an exception.
\<close>

definition lookup_pk :: "env \<Rightarrow> pyval \<Rightarrow> journalist list \<Rightarrow> journalist option" where
  "lookup_pk E k rows =
     (case k of
        PyInt i \<Rightarrow> find_by_id i rows
      | PyStr s \<Rightarrow> (case pk_of_str E s of None \<Rightarrow> None | Some i \<Rightarrow> find_by_id i rows)
      | PyNone \<Rightarrow> None)"

definition Journalist_query_get :: "env \<Rightarrow> pyval \<Rightarrow> app_state \<Rightarrow> journalist option \<times> app_state" where
  "Journalist_query_get E k st =
     (lookup_pk E k (journalists st), st\<lparr>db_log := db_log st @ [QueryGet k]\<rparr>)"

text \<open>\<^verbatim>\<open>Journalist.query.all()\<close>: every row of the table.\<close>

definition Journalist_query_all :: "app_state \<Rightarrow> journalist list \<times> app_state" where
  "Journalist_query_all st = (journalists st, st\<lparr>db_log := db_log st @ [QueryAll]\<rparr>)"

text \<open>
  \<^verbatim>\<open>Journalist.query.filter_by(username=name).one_or_none()\<close>: \<^verbatim>\<open>None\<close> for no
  row, the row when there is one, \<^verbatim>\<open>MultipleResultsFound\<close> otherwise.
\<close>

definition Journalist_query_filter_by_username_one_or_none ::
  "string \<Rightarrow> app_state \<Rightarrow> (exn + journalist option) \<times> app_state" where
  "Journalist_query_filter_by_username_one_or_none name st =
     ((case filter (\<lambda>r. username r = name) (journalists st) of
         [] \<Rightarrow> Inr None
       | [r] \<Rightarrow> Inr (Some r)
       | _ \<Rightarrow> Inl MultipleResultsFound),
      st\<lparr>db_log := db_log st @ [QueryFilterByUsername name]\<rparr>)"

definition db_session_add :: "journalist \<Rightarrow> app_state \<Rightarrow> app_state" where
  "db_session_add u st = st\<lparr>pending := pending st @ [Insert u], db_log := db_log st @ [SessionAdd]\<rparr>"

definition db_session_delete :: "journalist \<Rightarrow> app_state \<Rightarrow> app_state" where
  "db_session_delete u st = st\<lparr>pending := pending st @ [Delete u], db_log := db_log st @ [SessionDelete]\<rparr>"

text \<open>
  An attribute assignment on an object loaded from the table: the session keeps
  the changed object for the next flush.
\<close>

definition orm_dirty :: "journalist \<Rightarrow> app_state \<Rightarrow> app_state" where
  "orm_dirty u st = st\<lparr>pending := pending st @ [Update u]\<rparr>"

definition db_session_rollback :: "app_state \<Rightarrow> app_state" where
  "db_session_rollback st = st\<lparr>pending := [], db_log := db_log st @ [SessionRollback]\<rparr>"

text \<open>
  What \<^verbatim>\<open>str(e)\<close> gives for the \<^verbatim>\<open>IntegrityError\<close> of a second row with a
  username of the table.
\<close>

definition unique_username_msg :: string where
  "unique_username_msg = ''(sqlite3.IntegrityError) UNIQUE constraint failed: journalists.username''"

text \<open>The key of the next inserted row: one more than the largest key in use.\<close>

definition next_id :: "journalist list \<Rightarrow> int" where
  "next_id rows = fold max (List.map_filter jid rows) 0 + 1"

text \<open>
  Modelled from the spec: the schema of the \<^verbatim>\<open>journalists\<close> table
  (\<^verbatim>\<open>models.py\<close>) is not part of this module. Usernames are unique across
  accounts, and the storage layer's uniqueness constraint decides a conflict;
  the message is the one \<^verbatim>\<open>add_user\<close> looks for. An insert gives the row a
  fresh key.
\<close>

fun apply_op :: "journalist list \<Rightarrow> pending_op \<Rightarrow> exn + journalist list \<times> int list" where
  "apply_op rows (Insert u) =
     (if username u \<in> set (map username rows)
      then Inl (IntegrityError unique_username_msg)
      else Inr (rows @ [u\<lparr>jid := Some (next_id rows)\<rparr>], [next_id rows]))"
| "apply_op rows (Update u) =
     (if list_ex (\<lambda>r. jid r \<noteq> jid u \<and> username r = username u) rows
      then Inl (IntegrityError unique_username_msg)
      else Inr (map (\<lambda>r. if jid r = jid u then u else r) rows, []))"
| "apply_op rows (Delete u) = Inr (filter (\<lambda>r. jid r \<noteq> jid u) rows, [])"

text \<open>
  The flush of a unit of work, in the order the operations were registered. It
  stops at the first operation the table refuses; otherwise it gives the new
  rows and the keys the inserts were given.
\<close>

fun flush :: "journalist list \<Rightarrow> pending_op list \<Rightarrow> exn + journalist list \<times> int list" where
  "flush rows [] = Inr (rows, [])"
| "flush rows (p # ps) =
     (case apply_op rows p of
        Inl e \<Rightarrow> Inl e
      | Inr (rows', ids) \<Rightarrow>
          (case flush rows' ps of
             Inl e \<Rightarrow> Inl e
           | Inr (rows'', ids') \<Rightarrow> Inr (rows'', ids @ ids')))"

text \<open>
  \<^verbatim>\<open>db.session.commit()\<close>: the transaction is atomic. When the flush fails the
  table is as before and the unit of work stays until a rollback.
\<close>

definition db_session_commit :: "app_state \<Rightarrow> (exn + int list) \<times> app_state" where
  "db_session_commit st =
     (case flush (journalists st) (pending st) of
        Inl e \<Rightarrow> (Inl e, st\<lparr>db_log := db_log st @ [SessionCommit]\<rparr>)
      | Inr (rows, ids) \<Rightarrow>
          (Inr ids, st\<lparr>journalists := rows, pending := [], db_log := db_log st @ [SessionCommit]\<rparr>))"

subsection \<open>The view functions\<close>

text \<open>
  Every view function runs behind \<^verbatim>\<open>admin_required\<close>: what is modelled is the
  function the decorator wraps, called for an authenticated administrator. The
  functions come in the order of the module.
  \<^verbatim>\<open>url_for\<close> is the constructor of \<^typ>\<open>url\<close> for the endpoint, with the
  endpoint's arguments.
\<close>

definition index :: "env \<Rightarrow> request \<Rightarrow> app_state \<Rightarrow> response \<times> app_state" where
  "index E req st =
     (case Journalist_query_all st of (users, st1) \<Rightarrow>
        (Render ''admin.html'' [(''users'', TUsers users)], st1))"

text \<open>\<^verbatim>\<open>os.path.join\<close> of a directory and a relative path.\<close>

definition os_path_join :: "string \<Rightarrow> string \<Rightarrow> string" where
  "os_path_join a b =
     (if a = [] then b else if last a = CHR ''/'' then a @ b else a @ ''/'' @ b)"

text \<open>
  \<^verbatim>\<open>f.save(path)\<close> writes the uploaded image to the path; the two loops of
  the \<^verbatim>\<open>else\<close> branch flash every error of every field, in order.
\<close>

definition manage_config :: "env \<Rightarrow> request \<Rightarrow> app_state \<Rightarrow> response \<times> app_state" where
  "manage_config E req st =
     (case LogoForm_validate E req of
        Inr f \<Rightarrow>
          (let static_filepath = os_path_join (SECUREDROP_ROOT E) ''static/i/logo.png'';
               st1 = st\<lparr>files := (files st)(static_filepath \<mapsto> f)\<rparr>
           in (Redirect admin_manage_config,
               flash (gettext ''Image updated.'') ''logo-success'' st1))
      | Inl errors \<Rightarrow>
          (Render ''config.html'' [(''form'', TForm req)],
           fold (\<lambda>(field, errs) s. fold (\<lambda>error s'. flash error ''logo-error'' s') errs s)
             errors st))"

text \<open>
  The \<^verbatim>\<open>try\<close> block of \<^verbatim>\<open>add_user\<close>: the secret is read from the form only
  under \<^verbatim>\<open>is_hotp\<close>; then the object is built, added and committed. The block
  gives \<^verbatim>\<open>new_user.id\<close> as it stands after the commit.
\<close>

definition add_user_try ::
  "env \<Rightarrow> request \<Rightarrow> string \<Rightarrow> string \<Rightarrow> bool \<Rightarrow> app_state \<Rightarrow> (exn + pyval) \<times> app_state" where
  "add_user_try E req username' password is_admin' st =
     (let otp_secret' =
        (if truthy (form_get req ''is_hotp'')
         then Some (form_get_default req ''otp_secret'' '''')
         else None)
      in case Journalist_init E username' password is_admin' otp_secret' of
           Inl e \<Rightarrow> (Inl e, st)
         | Inr new_user \<Rightarrow>
             (case db_session_commit (db_session_add new_user st) of
                (Inl e, st') \<Rightarrow> (Inl e, st')
              | (Inr ids, st') \<Rightarrow>
                  (Inr (case ids of [] \<Rightarrow> PyNone | _ \<Rightarrow> PyInt (last ids)), st')))"

text \<open>
  The \<^verbatim>\<open>except\<close> clauses of \<^verbatim>\<open>add_user\<close>. Each of the three handled
  exceptions clears \<^verbatim>\<open>form_valid\<close>, so the function goes on to render the
  form; \<open>None\<close> is an exception no clause catches.
\<close>

fun add_user_except :: "string \<Rightarrow> exn \<Rightarrow> app_state \<Rightarrow> app_state option" where
  "add_user_except username' PasswordError st =
     Some (flash (gettext (''There was an error with the autogenerated password. ''
                           @ ''User not created. Please try again.'')) ''error'' st)"
| "add_user_except username' (InvalidUsernameException m) st =
     Some (flash (''Invalid username: '' @ m) ''error'' st)"
| "add_user_except username' (IntegrityError m) st =
     (let st1 = db_session_rollback st
      in if str_in ''UNIQUE constraint failed: journalists.username'' m
         then Some (flash (gettext ''That username is already in use'') ''error'' st1)
         else Some (logger_error
                      (''Adding user '' @ [CHR 0x27] @ username' @ [CHR 0x27] @ '' failed: '' @ m)
                      (flash (gettext (''An error occurred saving this user''
                                       @ '' to the database.''
                                       @ '' Please inform your administrator.'')) ''error'' st1)))"
| "add_user_except username' e st = None"

definition add_user :: "env \<Rightarrow> request \<Rightarrow> app_state \<Rightarrow> response \<times> app_state" where
  "add_user E req st =
     (if validate_on_submit E req then
        (case form_getitem req ''username'' of
           Inl e \<Rightarrow> (Unhandled e, st)
         | Inr username' \<Rightarrow>
        (case form_getitem req ''password'' of
           Inl e \<Rightarrow> (Unhandled e, st)
         | Inr password \<Rightarrow>
        (let is_admin' = truthy (form_get req ''is_admin'')
         in case add_user_try E req username' password is_admin' st of
              (Inr new_user_id, st1) \<Rightarrow> (Redirect (admin_new_user_two_factor new_user_id), st1)
            | (Inl e, st1) \<Rightarrow>
                (case add_user_except username' e st1 of
                   None \<Rightarrow> (Unhandled e, st1)
                 | Some st2 \<Rightarrow>
                     (Render ''admin_add_user.html''
                        [(''password'', TStr (make_password E)), (''form'', TForm req)], st2)))))
      else (Render ''admin_add_user.html''
              [(''password'', TStr (make_password E)), (''form'', TForm req)], st))"

definition new_user_two_factor :: "env \<Rightarrow> request \<Rightarrow> app_state \<Rightarrow> response \<times> app_state" where
  "new_user_two_factor E req st =
     (case args_getitem req ''uid'' of
        Inl e \<Rightarrow> (Unhandled e, st)
      | Inr uid \<Rightarrow>
     (case Journalist_query_get E (PyStr uid) st of (user, st1) \<Rightarrow>
        if req_method req = POST then
          (case form_getitem req ''token'' of
             Inl e \<Rightarrow> (Unhandled e, st1)
           | Inr token \<Rightarrow>
          (case user of
             None \<Rightarrow> (Unhandled (AttributeError ''verify_token''), st1)
           | Some u \<Rightarrow>
               if verify_token E u token
               then (Redirect admin_index,
                     flash (gettext ''Token in two-factor authentication accepted for user ''
                            @ username u @ ''.'') ''notification'' st1)
               else (Render ''admin_new_user_two_factor.html'' [(''user'', TUser user)],
                     flash (gettext ''Could not verify token in two-factor authentication.'')
                       ''error'' st1)))
        else (Render ''admin_new_user_two_factor.html'' [(''user'', TUser user)], st1)))"

definition reset_two_factor_totp :: "env \<Rightarrow> request \<Rightarrow> app_state \<Rightarrow> response \<times> app_state" where
  "reset_two_factor_totp E req st =
     (case form_getitem req ''uid'' of
        Inl e \<Rightarrow> (Unhandled e, st)
      | Inr uid \<Rightarrow>
     (case Journalist_query_get E (PyStr uid) st of (user, st1) \<Rightarrow>
      (case user of
         None \<Rightarrow> (Unhandled (AttributeError ''is_totp''), st1)
       | Some u \<Rightarrow>
           (let u' = regenerate_totp_shared_secret E (u\<lparr>is_totp := True\<rparr>)
            in case db_session_commit (orm_dirty u' st1) of
                 (Inl e, st2) \<Rightarrow> (Unhandled e, st2)
               | (Inr ids, st2) \<Rightarrow>
                   (Redirect (admin_new_user_two_factor (PyStr uid)), st2)))))"

text \<open>
  The check \<^verbatim>\<open>binascii.unhexlify\<close> makes on its argument, with the two
  messages \<^verbatim>\<open>reset_two_factor_hotp\<close> looks for: the length is tested first,
  then the digits.
\<close>

definition is_hex_digit :: "char \<Rightarrow> bool" where
  "is_hex_digit c = (c \<in> set ''0123456789abcdefABCDEF'')"

definition unhexlify_error :: "string \<Rightarrow> string option" where
  "unhexlify_error s =
     (if odd (length s) then Some ''Odd-length string''
      else if \<not> list_all is_hex_digit s then Some ''Non-hexadecimal digit found''
      else None)"

text \<open>
  Modelled from the spec: \<^verbatim>\<open>Journalist.set_hotp_secret\<close> (\<^verbatim>\<open>models.py\<close>) is
  not part of this module. For HOTP the secret must be well-formed hexadecimal
  of even length; a malformed secret is refused before anything is stored, and
  an accepted one makes the account an HOTP account with that secret.
\<close>

definition set_hotp_secret :: "env \<Rightarrow> string \<Rightarrow> journalist \<Rightarrow> exn + journalist" where
  "set_hotp_secret E secret u =
     (case unhexlify_error secret of
        Some m \<Rightarrow> Inl (TypeError m)
      | None \<Rightarrow> Inr (u\<lparr>is_totp := False, otp_secret := encode_hotp_secret E secret\<rparr>))"

text \<open>The \<^verbatim>\<open>except TypeError\<close> clause of \<^verbatim>\<open>reset_two_factor_hotp\<close>.\<close>

definition reset_two_factor_hotp_except :: "string \<Rightarrow> string \<Rightarrow> string \<Rightarrow> app_state \<Rightarrow> app_state" where
  "reset_two_factor_hotp_except otp_secret' uid m st =
     (if str_in ''Non-hexadecimal digit found'' m
      then flash (gettext (''Invalid secret format: ''
                           @ ''please only submit letters A-F and numbers 0-9.'')) ''error'' st
      else if str_in ''Odd-length string'' m
      then flash (gettext (''Invalid secret format: ''
                           @ ''odd-length secret. Did you mistype the secret?'')) ''error'' st
      else logger_error
             (''set_hotp_secret '' @ [CHR 0x27] @ otp_secret' @ [CHR 0x27] @ '' (id '' @ uid
              @ '') failed: '' @ m)
             (flash (gettext (''An unexpected error occurred! ''
                              @ ''Please inform your administrator.'')) ''error'' st))"

definition reset_two_factor_hotp :: "env \<Rightarrow> request \<Rightarrow> app_state \<Rightarrow> response \<times> app_state" where
  "reset_two_factor_hotp E req st =
     (case form_getitem req ''uid'' of
        Inl e \<Rightarrow> (Unhandled e, st)
      | Inr uid \<Rightarrow>
     (case form_get req ''otp_secret'' of
        None \<Rightarrow> (Render ''admin_edit_hotp_secret.html'' [(''uid'', TStr uid)], st)
      | Some otp_secret' \<Rightarrow>
          if otp_secret' \<noteq> [] then
            (case Journalist_query_get E (PyStr uid) st of (user, st1) \<Rightarrow>
             (case user of
                None \<Rightarrow> (Unhandled (AttributeError ''set_hotp_secret''), st1)
              | Some u \<Rightarrow>
                  (case set_hotp_secret E otp_secret' u of
                     Inl (TypeError m) \<Rightarrow>
                       (Render ''admin_edit_hotp_secret.html'' [(''uid'', TStr uid)],
                        reset_two_factor_hotp_except otp_secret' uid m st1)
                   | Inl e \<Rightarrow> (Unhandled e, st1)
                   | Inr u' \<Rightarrow>
                       (case db_session_commit (orm_dirty u' st1) of
                          (Inl e, st2) \<Rightarrow> (Unhandled e, st2)
                        | (Inr ids, st2) \<Rightarrow>
                            (Redirect (admin_new_user_two_factor (PyStr uid)), st2)))))
          else (Render ''admin_edit_hotp_secret.html'' [(''uid'', TStr uid)], st)))"

text \<open>
  The username part of \<^verbatim>\<open>edit_user\<close>. \<open>Inl\<close> is a response that ends the
  view function there (an early \<^verbatim>\<open>return\<close> or an exception); \<open>Inr\<close> is the
  object the function goes on with.
\<close>

definition edit_user_username ::
  "env \<Rightarrow> int \<Rightarrow> request \<Rightarrow> journalist option \<Rightarrow> app_state
   \<Rightarrow> (response \<times> app_state) + (journalist option \<times> app_state)" where
  "edit_user_username E user_id req user st =
     (if truthy (form_get req ''username'') then
        (case form_getitem req ''username'' of
           Inl e \<Rightarrow> Inl (Unhandled e, st)
         | Inr new_username \<Rightarrow>
        (case check_username_acceptable E new_username of
           Some m \<Rightarrow>
             Inl (Redirect (admin_edit_user user_id),
                  flash (''Invalid username: '' @ m) ''error'' st)
         | None \<Rightarrow>
        (case user of
           None \<Rightarrow> Inl (Unhandled (AttributeError ''username''), st)
         | Some u \<Rightarrow>
             if new_username = username u then Inr (Some u, st)
             else
               (case Journalist_query_filter_by_username_one_or_none new_username st of
                  (Inl e, st1) \<Rightarrow> Inl (Unhandled e, st1)
                | (Inr (Some other), st1) \<Rightarrow>
                    Inl (Redirect (admin_edit_user user_id),
                         flash (gettext ''Username '' @ [CHR 0x22] @ new_username @ [CHR 0x22]
                                @ '' already taken.'') ''error'' st1)
                | (Inr None, st1) \<Rightarrow>
                    Inr (Some (u\<lparr>username := new_username\<rparr>),
                         orm_dirty (u\<lparr>username := new_username\<rparr>) st1)))))
      else Inr (user, st))"

definition edit_user :: "env \<Rightarrow> int \<Rightarrow> request \<Rightarrow> app_state \<Rightarrow> response \<times> app_state" where
  "edit_user E user_id req st =
     (case Journalist_query_get E (PyInt user_id) st of (user, st1) \<Rightarrow>
        if req_method req = POST then
          (case edit_user_username E user_id req user st1 of
             Inl ret \<Rightarrow> ret
           | Inr (user', st2) \<Rightarrow>
               (case user' of
                  None \<Rightarrow> (Unhandled (AttributeError ''is_admin''), st2)
                | Some u \<Rightarrow>
                    (let u' = u\<lparr>is_admin := truthy (form_get req ''is_admin'')\<rparr>;
                         st3 = commit_account_changes E u' (orm_dirty u' st2)
                     in (Render ''edit_account.html''
                           [(''user'', TUser (Some u')), (''password'', TStr (make_password E))],
                         st3))))
        else (Render ''edit_account.html''
                [(''user'', TUser user), (''password'', TStr (make_password E))], st1))"

text \<open>
  \<^verbatim>\<open>Journalist.query.get\<close> as the \<^verbatim>\<open>try\<close> blocks of \<^verbatim>\<open>set_password\<close> and
  \<^verbatim>\<open>new_password\<close> see it, a call that returns or raises: it returns, also
  when no row has the key.
\<close>

definition Journalist_query_get_try ::
  "env \<Rightarrow> pyval \<Rightarrow> app_state \<Rightarrow> (exn + journalist option) \<times> app_state" where
  "Journalist_query_get_try E k st =
     (case Journalist_query_get E k st of (user, st1) \<Rightarrow> (Inr user, st1))"

definition set_password :: "env \<Rightarrow> int \<Rightarrow> request \<Rightarrow> app_state \<Rightarrow> response \<times> app_state" where
  "set_password E user_id req st =
     (case Journalist_query_get_try E (PyInt user_id) st of
        (Inl NoResultFound, st1) \<Rightarrow> (Abort 404, st1)
      | (Inl e, st1) \<Rightarrow> (Unhandled e, st1)
      | (Inr user, st1) \<Rightarrow>
          (let password = form_get req ''password''
           in case set_diceware_password E user password st1 of
                (Some e, st2) \<Rightarrow> (Unhandled e, st2)
              | (None, st2) \<Rightarrow> (Redirect (admin_edit_user user_id), st2)))"

definition delete_user :: "env \<Rightarrow> journalist \<Rightarrow> int \<Rightarrow> app_state \<Rightarrow> response \<times> app_state" where
  "delete_user E g_user user_id st =
     (case Journalist_query_get E (PyInt user_id) st of (user, st1) \<Rightarrow>
        if Some user_id = jid g_user then
          (Abort 403,
           logger_error (''Admin '' @ username g_user @ '' tried to delete itself'') st1)
        else
          (case user of
             Some u \<Rightarrow>
               (case db_session_commit (db_session_delete u st1) of
                  (Inl e, st2) \<Rightarrow> (Unhandled e, st2)
                | (Inr ids, st2) \<Rightarrow>
                    (Redirect admin_index,
                     flash (gettext ''Deleted user '' @ [CHR 0x27] @ username u @ [CHR 0x27])
                       ''notification'' st2))
           | None \<Rightarrow>
               (Abort 404,
                logger_error (''Admin '' @ username g_user
                              @ '' tried to delete nonexistent user with pk='' @ str_int user_id)
                  st1)))"

definition new_password :: "env \<Rightarrow> int \<Rightarrow> request \<Rightarrow> app_state \<Rightarrow> response \<times> app_state" where
  "new_password E user_id req st =
     (case Journalist_query_get_try E (PyInt user_id) st of
        (Inl NoResultFound, st1) \<Rightarrow> (Abort 404, st1)
      | (Inl e, st1) \<Rightarrow> (Unhandled e, st1)
      | (Inr user, st1) \<Rightarrow>
          (let password = form_get req ''password''
           in case set_diceware_password E user password st1 of
                (Some e, st2) \<Rightarrow> (Unhandled e, st2)
              | (None, st2) \<Rightarrow> (Redirect (admin_edit_user user_id), st2)))"

definition ossec_test :: "env \<Rightarrow> request \<Rightarrow> app_state \<Rightarrow> response \<times> app_state" where
  "ossec_test E req st =
     (Redirect admin_manage_config,
      flash (gettext ''Test alert sent. Check your email.'') ''notification''
        (logger_error ''This is a test OSSEC alert'' st))"


subsection \<open>A concrete deployment\<close>

text \<open>
  One instance of the collaborators and one table, on which the theorems below
  are run. The form validates a POST that names a user; the constructor refuses
  an empty username and an empty password, and otherwise builds an account in
  TOTP mode unless it is given a secret; a token is right when it is the stored
  secret reversed; textual keys are single decimal digits.
\<close>

definition example_init :: "string \<Rightarrow> string \<Rightarrow> bool \<Rightarrow> string option \<Rightarrow> exn + journalist" where
  "example_init name password admin secret =
     (if name = [] then Inl (InvalidUsernameException ''empty'')
      else if password = [] then Inl PasswordError
      else Inr \<lparr>jid = None, username = name, is_admin = admin, pw_hash = rev password,
                is_totp = (secret = None),
                otp_secret = (case secret of None \<Rightarrow> ''JBSWY3DP'' | Some s \<Rightarrow> s)\<rparr>)"

definition example_set_diceware_password ::
  "journalist option \<Rightarrow> string option \<Rightarrow> app_state \<Rightarrow> exn option \<times> app_state" where
  "example_set_diceware_password user password st =
     (case user of
        None \<Rightarrow> (Some (AttributeError ''set_password''), st)
      | Some u \<Rightarrow>
          (case password of
             None \<Rightarrow> (None, flash ''bad password'' ''error'' st)
           | Some p \<Rightarrow>
               (case db_session_commit (orm_dirty (u\<lparr>pw_hash := rev p\<rparr>) st) of
                  (r, st') \<Rightarrow> (None, st'))))"

definition example_commit_account_changes :: "journalist \<Rightarrow> app_state \<Rightarrow> app_state" where
  "example_commit_account_changes u st =
     (case db_session_commit st of
        (Inl e, st') \<Rightarrow> db_session_rollback st'
      | (Inr ids, st') \<Rightarrow> st')"

definition example_pk_of_str :: "string \<Rightarrow> int option" where
  "example_pk_of_str s =
     (if s = ''1'' then Some 1 else if s = ''2'' then Some 2 else if s = ''3'' then Some 3
      else None)"

definition example_env :: env where
  "example_env =
     \<lparr>SECUREDROP_ROOT = ''/var/www/securedrop'',
      LogoForm_validate =
        (\<lambda>req. case form req ''logo'' of
                  None \<Rightarrow> Inl [(''logo'', [''File required.''])]
                | Some f \<Rightarrow> Inr f),
      validate_on_submit = (\<lambda>req. req_method req = POST \<and> form req ''username'' \<noteq> None),
      Journalist_init = example_init,
      check_username_acceptable = (\<lambda>name. if length name < 3 then Some ''too short'' else None),
      verify_token = (\<lambda>u token. token = rev (otp_secret u)),
      regenerate_totp_shared_secret = (\<lambda>u. u\<lparr>otp_secret := ''GEZDGNBVGY3TQOJQ''\<rparr>),
      encode_hotp_secret = (\<lambda>s. s),
      set_diceware_password = example_set_diceware_password,
      commit_account_changes = example_commit_account_changes,
      make_password = ''correct horse battery staple'',
      pk_of_str = example_pk_of_str\<rparr>"

definition example_admin :: journalist where
  "example_admin =
     \<lparr>jid = Some 1, username = ''dellsberg'', is_admin = True, pw_hash = ''h1'',
      is_totp = True, otp_secret = ''JBSWY3DP''\<rparr>"

definition example_bob :: journalist where
  "example_bob =
     \<lparr>jid = Some 2, username = ''bob'', is_admin = False, pw_hash = ''h2'',
      is_totp = True, otp_secret = ''JBSWY3DP''\<rparr>"

definition example_state :: app_state where
  "example_state =
     \<lparr>journalists = [example_admin, example_bob], pending = [], flashes = [], logged = [],
      db_log = [], files = Map.empty\<rparr>"

definition post :: "(string \<times> string) list \<Rightarrow> (string \<times> string) list \<Rightarrow> request" where
  "post fs qs = \<lparr>req_method = POST, form = map_of fs, args = map_of qs\<rparr>"


section \<open>Properties of the view functions\<close>

subsection \<open>Deleting an account\<close>

lemma delete_user_self_eq:
  "jid g_user = Some user_id \<Longrightarrow>
   delete_user E g_user user_id st =
     (Abort 403,
      st\<lparr>logged := logged st @ [''Admin '' @ username g_user @ '' tried to delete itself''],
         db_log := db_log st @ [QueryGet (PyInt user_id)]\<rparr>)"
  by (simp add: delete_user_def Journalist_query_get_def logger_error_def)

lemma delete_user_missing_eq:
  "jid g_user \<noteq> Some user_id \<Longrightarrow> find_by_id user_id (journalists st) = None \<Longrightarrow>
   delete_user E g_user user_id st =
     (Abort 404,
      st\<lparr>logged := logged st @ [''Admin '' @ username g_user
                                @ '' tried to delete nonexistent user with pk='' @ str_int user_id],
         db_log := db_log st @ [QueryGet (PyInt user_id)]\<rparr>)"
  by (auto simp add: delete_user_def Journalist_query_get_def logger_error_def lookup_pk_def)

text \<open>
  C2. A POST to \<^verbatim>\<open>/delete/<id>\<close> whose target is the requesting administrator's
  own id is answered with HTTP 403. The attempt is written to the log. The only
  call to the database is the lookup: nothing is registered for deletion and
  nothing is committed, so the table is as before and the administrator's row
  is still found under its id.
\<close>

theorem delete_user_self_forbidden:
  assumes "jid g_user = Some user_id"
  shows "fst (delete_user E g_user user_id st) = Abort 403
       \<and> logged (snd (delete_user E g_user user_id st))
           = logged st @ [''Admin '' @ username g_user @ '' tried to delete itself'']
       \<and> db_log (snd (delete_user E g_user user_id st)) = db_log st @ [QueryGet (PyInt user_id)]
       \<and> pending (snd (delete_user E g_user user_id st)) = pending st
       \<and> journalists (snd (delete_user E g_user user_id st)) = journalists st
       \<and> find_by_id user_id (journalists (snd (delete_user E g_user user_id st)))
           = find_by_id user_id (journalists st)"
  by (simp add: delete_user_self_eq [OF assms])

theorem delete_user_self_forbidden_witness:
  "jid example_admin = Some 1
   \<and> fst (delete_user example_env example_admin 1 example_state) = Abort 403
   \<and> logged (snd (delete_user example_env example_admin 1 example_state))
       = [''Admin dellsberg tried to delete itself'']
   \<and> find_by_id 1 (journalists (snd (delete_user example_env example_admin 1 example_state)))
       = Some example_admin"
proof -
  have own: "jid example_admin = Some 1"
    by (simp add: example_admin_def)
  show ?thesis
    using own delete_user_self_forbidden [OF own, of example_env example_state]
    by (simp add: example_state_def example_admin_def example_bob_def find_by_id_def)
qed

text \<open>
  C5. A POST to \<^verbatim>\<open>/delete/<id>\<close> whose target is not the requester's own id and
  is the key of no row is answered with HTTP 404. The attempt is written to the
  log, and the table and the unit of work of the session are as before: the only
  call to the database is the lookup.
\<close>

theorem delete_user_nonexistent_not_found:
  assumes "jid g_user \<noteq> Some user_id"
    and "find_by_id user_id (journalists st) = None"
  shows "fst (delete_user E g_user user_id st) = Abort 404
       \<and> logged (snd (delete_user E g_user user_id st))
           = logged st @ [''Admin '' @ username g_user
                          @ '' tried to delete nonexistent user with pk='' @ str_int user_id]
       \<and> db_log (snd (delete_user E g_user user_id st)) = db_log st @ [QueryGet (PyInt user_id)]
       \<and> pending (snd (delete_user E g_user user_id st)) = pending st
       \<and> journalists (snd (delete_user E g_user user_id st)) = journalists st"
  by (simp add: delete_user_missing_eq [OF assms])

theorem delete_user_nonexistent_not_found_witness:
  "jid example_admin \<noteq> Some 7
   \<and> find_by_id 7 (journalists example_state) = None
   \<and> fst (delete_user example_env example_admin 7 example_state) = Abort 404
   \<and> logged (snd (delete_user example_env example_admin 7 example_state))
       = [''Admin dellsberg tried to delete nonexistent user with pk=7'']
   \<and> journalists (snd (delete_user example_env example_admin 7 example_state))
       = [example_admin, example_bob]"
proof -
  have other: "jid example_admin \<noteq> Some 7"
    by (simp add: example_admin_def)
  have missing: "find_by_id 7 (journalists example_state) = None"
    by (simp add: example_state_def example_admin_def example_bob_def find_by_id_def)
  have seven: "str_int 7 = ''7''"
    by (simp add: str_int_def str_nat.simps digit_char_def)
  show ?thesis
    using other missing delete_user_nonexistent_not_found [OF other missing, of example_env]
    by (simp add: seven example_state_def example_admin_def)
qed


subsection \<open>Resetting a password\<close>

text \<open>
  C7. The two view functions bound to \<^verbatim>\<open>POST /edit/<id>/new-password\<close>,
  \<^verbatim>\<open>set_password\<close> and \<^verbatim>\<open>new_password\<close>, are equal as functions: for every
  user id, request and state they give the same response and the same state.
\<close>

theorem set_password_new_password_equal:
  "set_password = new_password
   \<and> set_password E user_id req st = new_password E user_id req st"
  by (simp add: fun_eq_iff set_password_def new_password_def)

theorem set_password_new_password_equal_witness:
  "set_password example_env 2 (post [(''password'', ''hunter2'')] []) example_state
     = new_password example_env 2 (post [(''password'', ''hunter2'')] []) example_state"
  using set_password_new_password_equal
    [of example_env 2 "post [(''password'', ''hunter2'')] []" example_state]
  by (rule conjunct2)

text \<open>
  C1 (the code departs from it). For a target id that is the key of no row,
  \<^verbatim>\<open>set_password\<close> does not answer 404: the lookup returns \<^verbatim>\<open>None\<close> instead
  of raising \<^verbatim>\<open>NoResultFound\<close>, so the \<^verbatim>\<open>except\<close> clause is passed by and
  \<^verbatim>\<open>set_diceware_password\<close> is called with \<^verbatim>\<open>None\<close> for the account. The
  response is a redirect to the edit page when that call returns, and the
  exception of that call when it raises.
\<close>

theorem set_password_missing_account:
  assumes "find_by_id user_id (journalists st) = None"
  shows "set_password E user_id req st =
           (case set_diceware_password E None (form_get req ''password'')
                   (st\<lparr>db_log := db_log st @ [QueryGet (PyInt user_id)]\<rparr>) of
              (Some e, st2) \<Rightarrow> (Unhandled e, st2)
            | (None, st2) \<Rightarrow> (Redirect (admin_edit_user user_id), st2))
       \<and> fst (set_password E user_id req st) \<noteq> Abort 404"
  using assms
  by (simp add: set_password_def Journalist_query_get_try_def Journalist_query_get_def
      lookup_pk_def split: prod.splits option.splits)

theorem set_password_missing_account_witness:
  "find_by_id 7 (journalists example_state) = None
   \<and> set_password example_env 7 (post [(''password'', ''hunter2'')] []) example_state
       = (Unhandled (AttributeError ''set_password''),
          example_state\<lparr>db_log := [QueryGet (PyInt 7)]\<rparr>)"
proof -
  have missing: "find_by_id 7 (journalists example_state) = None"
    by (simp add: example_state_def example_admin_def example_bob_def find_by_id_def)
  show ?thesis
    using missing
      set_password_missing_account [OF missing, of example_env "post [(''password'', ''hunter2'')] []"]
    by (simp add: example_env_def example_set_diceware_password_def example_state_def)
qed


subsection \<open>Resetting the HOTP secret\<close>

text \<open>
  C10, as amended. A POST to \<^verbatim>\<open>/reset-2fa-hotp\<close> that carries a \<^verbatim>\<open>uid\<close> field
  and whose \<^verbatim>\<open>otp_secret\<close> field is missing or empty renders the secret-entry
  form again for that uid and leaves the whole state as it was: no account is
  looked up and nothing is committed.
\<close>

theorem reset_two_factor_hotp_without_secret:
  assumes "form_get req ''uid'' = Some uid"
    and "form_get req ''otp_secret'' = None \<or> form_get req ''otp_secret'' = Some ''''"
  shows "reset_two_factor_hotp E req st
           = (Render ''admin_edit_hotp_secret.html'' [(''uid'', TStr uid)], st)"
  using assms
  by (auto simp add: reset_two_factor_hotp_def form_getitem_def form_get_def)

theorem reset_two_factor_hotp_without_secret_witness:
  "form_get (post [(''uid'', ''2''), (''otp_secret'', '''')] []) ''uid'' = Some ''2''
   \<and> form_get (post [(''uid'', ''2''), (''otp_secret'', '''')] []) ''otp_secret'' = Some ''''
   \<and> reset_two_factor_hotp example_env (post [(''uid'', ''2''), (''otp_secret'', '''')] [])
         example_state
       = (Render ''admin_edit_hotp_secret.html'' [(''uid'', TStr ''2'')], example_state)"
proof -
  have uid: "form_get (post [(''uid'', ''2''), (''otp_secret'', '''')] []) ''uid'' = Some ''2''"
    by (simp add: form_get_def post_def)
  have secret:
    "form_get (post [(''uid'', ''2''), (''otp_secret'', '''')] []) ''otp_secret'' = Some ''''"
    by (simp add: form_get_def post_def)
  show ?thesis
    using uid secret
      reset_two_factor_hotp_without_secret [OF uid disjI2 [OF secret], of example_env example_state]
    by simp
qed

text \<open>
  The claim without the amendment fails: a POST that has no \<^verbatim>\<open>otp_secret\<close>
  field and no \<^verbatim>\<open>uid\<close> field either stops at \<^verbatim>\<open>request.form['uid']\<close>, which
  the framework answers with HTTP 400; no form is rendered.
\<close>

theorem reset_two_factor_hotp_without_uid:
  "form_get (post [] []) ''otp_secret'' = None
   \<and> fst (reset_two_factor_hotp example_env (post [] []) example_state)
       = Unhandled (BadRequestKeyError ''uid'')"
  by (simp add: reset_two_factor_hotp_def form_getitem_def form_get_def post_def)


lemma reset_two_factor_hotp_except_odd:
  "reset_two_factor_hotp_except s uid ''Odd-length string'' st
     = flash ''Invalid secret format: odd-length secret. Did you mistype the secret?'' ''error'' st"
  by (simp add: reset_two_factor_hotp_except_def gettext_def)

lemma reset_two_factor_hotp_except_nonhex:
  "reset_two_factor_hotp_except s uid ''Non-hexadecimal digit found'' st
     = flash ''Invalid secret format: please only submit letters A-F and numbers 0-9.''
         ''error'' st"
  by (simp add: reset_two_factor_hotp_except_def gettext_def)

lemma set_hotp_secret_odd:
  "odd (length s) \<Longrightarrow> set_hotp_secret E s u = Inl (TypeError ''Odd-length string'')"
  by (simp add: set_hotp_secret_def unhexlify_error_def)

lemma set_hotp_secret_nonhex:
  "even (length s) \<Longrightarrow> \<not> list_all is_hex_digit s \<Longrightarrow>
   set_hotp_secret E s u = Inl (TypeError ''Non-hexadecimal digit found'')"
  by (simp add: set_hotp_secret_def unhexlify_error_def)

lemma reset_two_factor_hotp_malformed_eq:
  assumes uid: "form_get req ''uid'' = Some uid"
    and secret: "form_get req ''otp_secret'' = Some s"
    and bad: "odd (length s) \<or> \<not> list_all is_hex_digit s"
    and user: "lookup_pk E (PyStr uid) (journalists st) = Some u"
  shows "reset_two_factor_hotp E req st =
           (Render ''admin_edit_hotp_secret.html'' [(''uid'', TStr uid)],
            st\<lparr>flashes := flashes st @
                  [(if odd (length s)
                    then ''Invalid secret format: odd-length secret. Did you mistype the secret?''
                    else ''Invalid secret format: please only submit letters A-F and numbers 0-9.'',
                    ''error'')],
               db_log := db_log st @ [QueryGet (PyStr uid)]\<rparr>)"
proof (cases "odd (length s)")
  case True
  then have "s \<noteq> []" by auto
  with True uid secret user show ?thesis
    by (simp add: reset_two_factor_hotp_def form_getitem_def form_get_def
        Journalist_query_get_def set_hotp_secret_odd reset_two_factor_hotp_except_odd flash_def)
next
  case False
  with bad have nonhex: "\<not> list_all is_hex_digit s" by simp
  then have "s \<noteq> []" by auto
  with False nonhex uid secret user show ?thesis
    by (simp add: reset_two_factor_hotp_def form_getitem_def form_get_def
        Journalist_query_get_def set_hotp_secret_nonhex reset_two_factor_hotp_except_nonhex
        flash_def)
qed

lemma reset_two_factor_hotp_malformed_table:
  assumes secret: "form_get req ''otp_secret'' = Some s"
    and bad: "odd (length s) \<or> \<not> list_all is_hex_digit s"
  shows "journalists (snd (reset_two_factor_hotp E req st)) = journalists st
       \<and> SessionCommit
           \<notin> set (drop (length (db_log st)) (db_log (snd (reset_two_factor_hotp E req st))))"
proof -
  have raises: "\<And>u. \<exists>m. set_hotp_secret E s u = Inl (TypeError m)"
    using bad by (auto simp add: set_hotp_secret_def unhexlify_error_def)
  show ?thesis
  proof (cases "form req ''uid''")
    case None
    then show ?thesis
      by (simp add: reset_two_factor_hotp_def form_getitem_def)
  next
    case field: (Some uid)
    show ?thesis
    proof (cases "lookup_pk E (PyStr uid) (journalists st)")
      case None
      with field secret show ?thesis
        by (simp add: reset_two_factor_hotp_def form_getitem_def form_get_def
            Journalist_query_get_def)
    next
      case (Some u)
      from raises obtain m where m: "set_hotp_secret E s u = Inl (TypeError m)" by blast
      from Some field secret m show ?thesis
        by (simp add: reset_two_factor_hotp_def form_getitem_def form_get_def
            Journalist_query_get_def reset_two_factor_hotp_except_def flash_def logger_error_def)
    qed
  qed
qed

text \<open>
  C4. A POST to \<^verbatim>\<open>/reset-2fa-hotp\<close> whose submitted secret has odd length or
  holds a character that is no hexadecimal digit leaves the table as it was,
  and the view function does not commit. When the request names an account
  that exists, the form is rendered again with one flashed error: the
  odd-length message for a secret of odd length, the message about letters A-F
  and numbers 0-9 for a secret of even length with a character that is no
  hexadecimal digit. The two messages differ.
\<close>

theorem reset_two_factor_hotp_malformed_secret:
  assumes "form_get req ''otp_secret'' = Some s"
    and "odd (length s) \<or> \<not> list_all is_hex_digit s"
  shows "journalists (snd (reset_two_factor_hotp E req st)) = journalists st
       \<and> SessionCommit
           \<notin> set (drop (length (db_log st)) (db_log (snd (reset_two_factor_hotp E req st))))
       \<and> (\<forall>uid u. form_get req ''uid'' = Some uid
             \<longrightarrow> lookup_pk E (PyStr uid) (journalists st) = Some u
             \<longrightarrow> lookup_pk E (PyStr uid) (journalists (snd (reset_two_factor_hotp E req st)))
                   = Some u
               \<and> reset_two_factor_hotp E req st =
                   (Render ''admin_edit_hotp_secret.html'' [(''uid'', TStr uid)],
                    st\<lparr>flashes := flashes st @
                          [(if odd (length s)
                            then ''Invalid secret format: odd-length secret. Did you mistype the secret?''
                            else ''Invalid secret format: please only submit letters A-F and numbers 0-9.'',
                            ''error'')],
                       db_log := db_log st @ [QueryGet (PyStr uid)]\<rparr>))
       \<and> ''Invalid secret format: odd-length secret. Did you mistype the secret?''
           \<noteq> ''Invalid secret format: please only submit letters A-F and numbers 0-9.''"
  using reset_two_factor_hotp_malformed_table [OF assms, of E st]
    reset_two_factor_hotp_malformed_eq [OF _ assms, of _ E st]
  by simp

theorem reset_two_factor_hotp_malformed_secret_witness:
  "form_get (post [(''uid'', ''2''), (''otp_secret'', ''abc'')] []) ''otp_secret'' = Some ''abc''
   \<and> odd (length ''abc'')
   \<and> reset_two_factor_hotp example_env (post [(''uid'', ''2''), (''otp_secret'', ''abc'')] [])
         example_state
       = (Render ''admin_edit_hotp_secret.html'' [(''uid'', TStr ''2'')],
          example_state
            \<lparr>flashes :=
               [(''Invalid secret format: odd-length secret. Did you mistype the secret?'',
                 ''error'')],
             db_log := [QueryGet (PyStr ''2'')]\<rparr>)
   \<and> lookup_pk example_env (PyStr ''2'')
        (journalists (snd (reset_two_factor_hotp example_env
           (post [(''uid'', ''2''), (''otp_secret'', ''abc'')] []) example_state)))
       = Some example_bob"
proof -
  let ?req = "post [(''uid'', ''2''), (''otp_secret'', ''abc'')] []"
  have secret: "form_get ?req ''otp_secret'' = Some ''abc''"
    by (simp add: form_get_def post_def)
  have bad: "odd (length ''abc'') \<or> \<not> list_all is_hex_digit ''abc''"
    by simp
  have uid: "form_get ?req ''uid'' = Some ''2''"
    by (simp add: form_get_def post_def)
  have user: "lookup_pk example_env (PyStr ''2'') (journalists example_state) = Some example_bob"
    by (simp add: lookup_pk_def example_env_def example_pk_of_str_def example_state_def
        find_by_id_def example_admin_def example_bob_def)
  from reset_two_factor_hotp_malformed_secret [OF secret bad, of example_env example_state]
  have "lookup_pk example_env (PyStr ''2'')
          (journalists (snd (reset_two_factor_hotp example_env ?req example_state)))
          = Some example_bob
        \<and> reset_two_factor_hotp example_env ?req example_state =
            (Render ''admin_edit_hotp_secret.html'' [(''uid'', TStr ''2'')],
             example_state
               \<lparr>flashes := flashes example_state @
                  [(if odd (length ''abc'')
                    then ''Invalid secret format: odd-length secret. Did you mistype the secret?''
                    else ''Invalid secret format: please only submit letters A-F and numbers 0-9.'',
                    ''error'')],
                db_log := db_log example_state @ [QueryGet (PyStr ''2'')]\<rparr>)"
    using uid user by blast
  then show ?thesis
    using secret user by (simp add: example_state_def)
qed

text \<open>
  The same request with the secret \<^verbatim>\<open>zz\<close>, of even length, gets the other
  message.
\<close>

lemma reset_two_factor_hotp_nonhex_example:
  "reset_two_factor_hotp example_env (post [(''uid'', ''2''), (''otp_secret'', ''zz'')] [])
     example_state
   = (Render ''admin_edit_hotp_secret.html'' [(''uid'', TStr ''2'')],
      example_state
        \<lparr>flashes :=
           [(''Invalid secret format: please only submit letters A-F and numbers 0-9.'',
             ''error'')],
         db_log := [QueryGet (PyStr ''2'')]\<rparr>)"
proof -
  let ?req = "post [(''uid'', ''2''), (''otp_secret'', ''zz'')] []"
  have secret: "form_get ?req ''otp_secret'' = Some ''zz''"
    by (simp add: form_get_def post_def)
  have bad: "odd (length ''zz'') \<or> \<not> list_all is_hex_digit ''zz''"
    by (simp add: is_hex_digit_def)
  have uid: "form_get ?req ''uid'' = Some ''2''"
    by (simp add: form_get_def post_def)
  have user: "lookup_pk example_env (PyStr ''2'') (journalists example_state) = Some example_bob"
    by (simp add: lookup_pk_def example_env_def example_pk_of_str_def example_state_def
        find_by_id_def example_admin_def example_bob_def)
  from reset_two_factor_hotp_malformed_eq [OF uid secret bad user]
  show ?thesis
    by (simp add: example_state_def)
qed


subsection \<open>Creating an account\<close>

lemma unique_msg_found:
  "str_in ''UNIQUE constraint failed: journalists.username'' unique_username_msg"
  by (simp add: unique_username_msg_def)

lemma fold_max_ge: "a \<le> fold max xs (a::int)"
proof (induction xs arbitrary: a)
  case Nil
  show ?case by simp
next
  case (Cons x xs)
  have "a \<le> max x a" by simp
  also have "\<dots> \<le> fold max xs (max x a)" by (rule Cons.IH)
  finally show ?case by simp
qed

lemma fold_max_mem: "x \<in> set xs \<Longrightarrow> x \<le> fold max xs (a::int)"
proof (induction xs arbitrary: a)
  case Nil
  then show ?case by simp
next
  case (Cons y ys)
  show ?case
  proof (cases "x = y")
    case True
    have "x \<le> max y a" using True by simp
    also have "\<dots> \<le> fold max ys (max y a)" by (rule fold_max_ge)
    finally show ?thesis by simp
  next
    case False
    with Cons.prems have "x \<in> set ys" by simp
    then show ?thesis using Cons.IH by simp
  qed
qed

text \<open>The key an insert gives is the key of no row of the table.\<close>

lemma next_id_fresh: "r \<in> set rows \<Longrightarrow> jid r \<noteq> Some (next_id rows)"
proof
  assume r: "r \<in> set rows" and eq: "jid r = Some (next_id rows)"
  then have "next_id rows \<in> set (List.map_filter jid rows)"
    by (force simp add: List.map_filter_def)
  then have "next_id rows \<le> fold max (List.map_filter jid rows) 0"
    by (rule fold_max_mem)
  then show False by (simp add: next_id_def)
qed

lemma find_by_id_next_id: "find_by_id (next_id rows) rows = None"
  using next_id_fresh [of _ rows] by (auto simp add: find_by_id_def find_None_iff)

lemma find_by_id_append:
  "find_by_id i (xs @ ys) = (case find_by_id i xs of None \<Rightarrow> find_by_id i ys | Some r \<Rightarrow> Some r)"
  by (induction xs) (simp_all add: find_by_id_def)

lemma find_by_id_inserted:
  "find_by_id (next_id rows) (rows @ [u\<lparr>jid := Some (next_id rows)\<rparr>])
     = Some (u\<lparr>jid := Some (next_id rows)\<rparr>)"
  by (simp add: find_by_id_append find_by_id_next_id) (simp add: find_by_id_def)

lemma add_user_try_taken:
  assumes "pending st = []"
    and "Journalist_init E name pw adm
           (if truthy (form_get req ''is_hotp'')
            then Some (form_get_default req ''otp_secret'' '''') else None) = Inr u"
    and "username u \<in> set (map username (journalists st))"
  shows "add_user_try E req name pw adm st =
           (Inl (IntegrityError unique_username_msg),
            st\<lparr>pending := [Insert u], db_log := db_log st @ [SessionAdd, SessionCommit]\<rparr>)"
  using assms
  by (simp add: add_user_try_def db_session_add_def db_session_commit_def)

lemma add_user_try_free:
  assumes "pending st = []"
    and "Journalist_init E name pw adm
           (if truthy (form_get req ''is_hotp'')
            then Some (form_get_default req ''otp_secret'' '''') else None) = Inr u"
    and "username u \<notin> set (map username (journalists st))"
  shows "add_user_try E req name pw adm st =
           (Inr (PyInt (next_id (journalists st))),
            st\<lparr>journalists := journalists st @ [u\<lparr>jid := Some (next_id (journalists st))\<rparr>],
               pending := [],
               db_log := db_log st @ [SessionAdd, SessionCommit]\<rparr>)"
  using assms
  by (simp add: add_user_try_def db_session_add_def db_session_commit_def)

lemma add_user_try_table:
  assumes "pending st = []"
    and "name \<in> set (map username (journalists st))"
    and "\<And>a s u. Journalist_init E name pw a s = Inr u \<Longrightarrow> username u = name"
  shows "journalists (snd (add_user_try E req name pw adm st)) = journalists st"
proof (cases "Journalist_init E name pw adm
           (if truthy (form_get req ''is_hotp'')
            then Some (form_get_default req ''otp_secret'' '''') else None)")
  case (Inl e)
  then show ?thesis by (simp add: add_user_try_def)
next
  case (Inr u)
  then have "username u = name" by (rule assms(3))
  with assms(2) have "username u \<in> set (map username (journalists st))" by simp
  from add_user_try_taken [OF assms(1) Inr this] show ?thesis by simp
qed

lemma add_user_except_table:
  "add_user_except name e st = Some st' \<Longrightarrow> journalists st' = journalists st"
  by (cases e)
    (auto simp add: flash_def logger_error_def db_session_rollback_def Let_def split: if_splits)

lemma add_user_table:
  assumes "pending st = []"
    and "form_get req ''username'' = Some name"
    and "name \<in> set (map username (journalists st))"
    and "\<And>pw a s u. Journalist_init E name pw a s = Inr u \<Longrightarrow> username u = name"
  shows "journalists (snd (add_user E req st)) = journalists st"
proof (cases "validate_on_submit E req")
  case False
  then show ?thesis by (simp add: add_user_def)
next
  case valid: True
  show ?thesis
  proof (cases "form req ''password''")
    case None
    with valid assms(2) show ?thesis
      by (simp add: add_user_def form_getitem_def form_get_def)
  next
    case (Some pw)
    let ?adm = "truthy (form_get req ''is_admin'')"
    obtain r st1 where tried: "add_user_try E req name pw ?adm st = (r, st1)"
      by (cases "add_user_try E req name pw ?adm st")
    have "journalists (snd (add_user_try E req name pw ?adm st)) = journalists st"
      by (rule add_user_try_table [OF assms(1) assms(3)]) (rule assms(4))
    with tried have st1: "journalists st1 = journalists st" by simp
    show ?thesis
    proof (cases r)
      case (Inr new_id)
      with valid assms(2) Some tried st1 show ?thesis
        by (simp add: add_user_def form_getitem_def form_get_def)
    next
      case (Inl e)
      show ?thesis
      proof (cases "add_user_except name e st1")
        case None
        with Inl valid assms(2) Some tried st1 show ?thesis
          by (simp add: add_user_def form_getitem_def form_get_def)
      next
        case handled: (Some st2)
        then have "journalists st2 = journalists st1" by (rule add_user_except_table)
        with handled Inl valid assms(2) Some tried st1 show ?thesis
          by (simp add: add_user_def form_getitem_def form_get_def)
      qed
    qed
  qed
qed

lemma add_user_taken_eq:
  assumes "pending st = []"
    and "validate_on_submit E req"
    and "form_get req ''username'' = Some name"
    and "form_get req ''password'' = Some pw"
    and "Journalist_init E name pw (truthy (form_get req ''is_admin''))
           (if truthy (form_get req ''is_hotp'')
            then Some (form_get_default req ''otp_secret'' '''') else None) = Inr u"
    and "username u \<in> set (map username (journalists st))"
  shows "add_user E req st =
           (Render ''admin_add_user.html''
              [(''password'', TStr (make_password E)), (''form'', TForm req)],
            st\<lparr>flashes := flashes st @ [(''That username is already in use'', ''error'')],
               db_log := db_log st @ [SessionAdd, SessionCommit, SessionRollback]\<rparr>)"
  using assms(1-4) add_user_try_taken [OF assms(1) assms(5) assms(6)] unique_msg_found
  by (simp add: add_user_def form_getitem_def form_get_def db_session_rollback_def flash_def
      gettext_def)

lemma add_user_free_eq:
  assumes "pending st = []"
    and "validate_on_submit E req"
    and "form_get req ''username'' = Some name"
    and "form_get req ''password'' = Some pw"
    and "Journalist_init E name pw (truthy (form_get req ''is_admin''))
           (if truthy (form_get req ''is_hotp'')
            then Some (form_get_default req ''otp_secret'' '''') else None) = Inr u"
    and "username u \<notin> set (map username (journalists st))"
  shows "add_user E req st =
           (Redirect (admin_new_user_two_factor (PyInt (next_id (journalists st)))),
            st\<lparr>journalists := journalists st @ [u\<lparr>jid := Some (next_id (journalists st))\<rparr>],
               db_log := db_log st @ [SessionAdd, SessionCommit]\<rparr>)"
  using assms(1-4) add_user_try_free [OF assms(1) assms(5) assms(6)]
  by (simp add: add_user_def form_getitem_def form_get_def)

lemma new_user_two_factor_accepted:
  assumes "req_method req = POST"
    and "args req ''uid'' = Some uid"
    and "lookup_pk E (PyStr uid) (journalists st) = Some u"
    and "form req ''token'' = Some token"
    and "verify_token E u token"
  shows "new_user_two_factor E req st =
           (Redirect admin_index,
            st\<lparr>flashes := flashes st @
                  [(''Token in two-factor authentication accepted for user '' @ username u @ ''.'',
                    ''notification'')],
               db_log := db_log st @ [QueryGet (PyStr uid)]\<rparr>)"
  using assms
  by (simp add: new_user_two_factor_def args_getitem_def form_getitem_def
      Journalist_query_get_def flash_def gettext_def)


text \<open>
  C3, as amended. Take a POST to \<^verbatim>\<open>/add\<close> whose username is the username of
  a row of the table, handled in a session with an empty unit of work, where the
  constructor gives an object the username it is called with. No row is added
  or changed, whatever else the request holds. When the form validates and the
  constructor returns the object, the commit is refused, the session is rolled
  back, ``That username is already in use'' is flashed as an error and the form
  is rendered again; no exception leaves the view function.
\<close>

theorem add_user_duplicate_username:
  assumes "pending st = []"
    and "form_get req ''username'' = Some name"
    and "name \<in> set (map username (journalists st))"
    and "\<forall>pw a s u. Journalist_init E name pw a s = Inr u \<longrightarrow> username u = name"
  shows "journalists (snd (add_user E req st)) = journalists st
       \<and> (\<forall>pw u. validate_on_submit E req
             \<longrightarrow> form_get req ''password'' = Some pw
             \<longrightarrow> Journalist_init E name pw (truthy (form_get req ''is_admin''))
                    (if truthy (form_get req ''is_hotp'')
                     then Some (form_get_default req ''otp_secret'' '''') else None) = Inr u
             \<longrightarrow> add_user E req st =
                   (Render ''admin_add_user.html''
                      [(''password'', TStr (make_password E)), (''form'', TForm req)],
                    st\<lparr>flashes := flashes st @ [(''That username is already in use'', ''error'')],
                       db_log := db_log st @ [SessionAdd, SessionCommit, SessionRollback]\<rparr>))"
proof (intro conjI allI impI)
  show "journalists (snd (add_user E req st)) = journalists st"
    by (rule add_user_table [OF assms(1-3)]) (simp add: assms(4))
next
  fix pw u
  assume valid: "validate_on_submit E req"
    and pw: "form_get req ''password'' = Some pw"
    and built: "Journalist_init E name pw (truthy (form_get req ''is_admin''))
                  (if truthy (form_get req ''is_hotp'')
                   then Some (form_get_default req ''otp_secret'' '''') else None) = Inr u"
  from built have "username u = name" by (simp add: assms(4))
  with assms(3) have "username u \<in> set (map username (journalists st))" by simp
  from add_user_taken_eq [OF assms(1) valid assms(2) pw built this]
  show "add_user E req st =
          (Render ''admin_add_user.html''
             [(''password'', TStr (make_password E)), (''form'', TForm req)],
           st\<lparr>flashes := flashes st @ [(''That username is already in use'', ''error'')],
              db_log := db_log st @ [SessionAdd, SessionCommit, SessionRollback]\<rparr>)" .
qed

lemma example_init_username: "example_init name pw a s = Inr u \<Longrightarrow> username u = name"
  by (auto simp add: example_init_def split: if_splits)

theorem add_user_duplicate_username_witness:
  "pending example_state = []
   \<and> form_get (post [(''username'', ''bob''), (''password'', ''x'')] []) ''username'' = Some ''bob''
   \<and> ''bob'' \<in> set (map username (journalists example_state))
   \<and> add_user example_env (post [(''username'', ''bob''), (''password'', ''x'')] []) example_state
       = (Render ''admin_add_user.html''
            [(''password'', TStr ''correct horse battery staple''),
             (''form'', TForm (post [(''username'', ''bob''), (''password'', ''x'')] []))],
          example_state
            \<lparr>flashes := [(''That username is already in use'', ''error'')],
             db_log := [SessionAdd, SessionCommit, SessionRollback]\<rparr>)
   \<and> journalists
        (snd (add_user example_env (post [(''username'', ''bob''), (''password'', ''x'')] [])
                example_state))
       = [example_admin, example_bob]"
proof -
  let ?req = "post [(''username'', ''bob''), (''password'', ''x'')] []"
  have fresh: "pending example_state = []"
    by (simp add: example_state_def)
  have name: "form_get ?req ''username'' = Some ''bob''"
    by (simp add: form_get_def post_def)
  have taken: "''bob'' \<in> set (map username (journalists example_state))"
    by (simp add: example_state_def example_bob_def)
  have init: "\<forall>pw a s u. Journalist_init example_env ''bob'' pw a s = Inr u
                 \<longrightarrow> username u = ''bob''"
    by (simp add: example_env_def example_init_username)
  have valid: "validate_on_submit example_env ?req"
    by (simp add: example_env_def post_def)
  have pw: "form_get ?req ''password'' = Some ''x''"
    by (simp add: form_get_def post_def)
  have built:
    "Journalist_init example_env ''bob'' ''x'' (truthy (form_get ?req ''is_admin''))
       (if truthy (form_get ?req ''is_hotp'')
        then Some (form_get_default ?req ''otp_secret'' '''') else None)
     = Inr \<lparr>jid = None, username = ''bob'', is_admin = False, pw_hash = ''x'', is_totp = True,
            otp_secret = ''JBSWY3DP''\<rparr>"
    by (simp add: example_env_def example_init_def truthy_def form_get_def post_def)
  from add_user_duplicate_username [where E = example_env, OF fresh name taken init]
  have table: "journalists (snd (add_user example_env ?req example_state))
                 = journalists example_state"
    and flashed: "add_user example_env ?req example_state =
            (Render ''admin_add_user.html''
               [(''password'', TStr (make_password example_env)), (''form'', TForm ?req)],
             example_state
               \<lparr>flashes := flashes example_state @ [(''That username is already in use'', ''error'')],
                db_log := db_log example_state @ [SessionAdd, SessionCommit, SessionRollback]\<rparr>)"
    using valid pw built by blast+
  have shown: "make_password example_env = ''correct horse battery staple''"
    by (simp add: example_env_def)
  have empty: "flashes example_state = []" "db_log example_state = []"
    "journalists example_state = [example_admin, example_bob]"
    by (simp_all add: example_state_def)
  show ?thesis
    using fresh name taken table flashed by (simp only: shown empty append_Nil simp_thms)
qed

text \<open>
  The claim without the amendment fails: the same username with an empty
  password is refused by the constructor with \<^verbatim>\<open>PasswordError\<close>. The view
  function flashes the password message and not the duplicate-username one, and
  it calls no rollback.
\<close>

theorem add_user_duplicate_username_bad_password:
  "form_get (post [(''username'', ''bob''), (''password'', '''')] []) ''username'' = Some ''bob''
   \<and> ''bob'' \<in> set (map username (journalists example_state))
   \<and> add_user example_env (post [(''username'', ''bob''), (''password'', '''')] []) example_state
       = (Render ''admin_add_user.html''
            [(''password'', TStr ''correct horse battery staple''),
             (''form'', TForm (post [(''username'', ''bob''), (''password'', '''')] []))],
          example_state
            \<lparr>flashes :=
               [(''There was an error with the autogenerated password. User not created. Please try again.'',
                 ''error'')]\<rparr>)"
  by (simp add: add_user_def add_user_try_def form_getitem_def form_get_def post_def
      example_env_def example_init_def example_state_def example_bob_def truthy_def
      flash_def gettext_def)

text \<open>
  C8. A POST to \<^verbatim>\<open>/add\<close> that validates, whose constructor call returns the
  new object and whose username is the username of no row, appends the object
  to the table under a fresh id and redirects to \<^verbatim>\<open>/2fa\<close> with that id as
  \<^verbatim>\<open>uid\<close>. A POST to \<^verbatim>\<open>/2fa\<close> that follows with this uid and a token the
  new account verifies is answered with a redirect to the account list. The
  witness is the request with username \<^verbatim>\<open>alice\<close>, password \<^verbatim>\<open>x\<close> and no
  \<^verbatim>\<open>is_admin\<close> field.
\<close>

theorem add_user_then_two_factor:
  assumes "pending st = []"
    and "validate_on_submit E req"
    and "form_get req ''username'' = Some name"
    and "form_get req ''password'' = Some pw"
    and "Journalist_init E name pw (truthy (form_get req ''is_admin''))
           (if truthy (form_get req ''is_hotp'')
            then Some (form_get_default req ''otp_secret'' '''') else None) = Inr u"
    and "username u \<notin> set (map username (journalists st))"
    and "req_method req2 = POST"
    and "args req2 ''uid'' = Some uid"
    and "pk_of_str E uid = Some (next_id (journalists st))"
    and "form req2 ''token'' = Some token"
    and "verify_token E (u\<lparr>jid := Some (next_id (journalists st))\<rparr>) token"
  shows "add_user E req st =
           (Redirect (admin_new_user_two_factor (PyInt (next_id (journalists st)))),
            st\<lparr>journalists := journalists st @ [u\<lparr>jid := Some (next_id (journalists st))\<rparr>],
               db_log := db_log st @ [SessionAdd, SessionCommit]\<rparr>)
       \<and> fst (new_user_two_factor E req2 (snd (add_user E req st))) = Redirect admin_index"
proof -
  let ?u = "u\<lparr>jid := Some (next_id (journalists st))\<rparr>"
  let ?st = "st\<lparr>journalists := journalists st @ [?u],
                 db_log := db_log st @ [SessionAdd, SessionCommit]\<rparr>"
  have added: "add_user E req st
                 = (Redirect (admin_new_user_two_factor (PyInt (next_id (journalists st)))), ?st)"
    by (rule add_user_free_eq [OF assms(1-6)])
  have found: "lookup_pk E (PyStr uid) (journalists ?st) = Some ?u"
    using assms(9) by (simp add: lookup_pk_def find_by_id_inserted)
  have "fst (new_user_two_factor E req2 ?st) = Redirect admin_index"
    by (simp add: new_user_two_factor_accepted [OF assms(7) assms(8) found assms(10) assms(11)])
  with added show ?thesis by simp
qed

theorem add_user_then_two_factor_witness:
  "add_user example_env (post [(''username'', ''alice''), (''password'', ''x'')] []) example_state
     = (Redirect (admin_new_user_two_factor (PyInt 3)),
        example_state
          \<lparr>journalists :=
             [example_admin, example_bob,
              \<lparr>jid = Some 3, username = ''alice'', is_admin = False, pw_hash = ''x'',
               is_totp = True, otp_secret = ''JBSWY3DP''\<rparr>],
           db_log := [SessionAdd, SessionCommit]\<rparr>)
   \<and> fst (new_user_two_factor example_env (post [(''token'', ''PD3YWSBJ'')] [(''uid'', ''3'')])
            (snd (add_user example_env (post [(''username'', ''alice''), (''password'', ''x'')] [])
                    example_state)))
       = Redirect admin_index"
proof -
  let ?req = "post [(''username'', ''alice''), (''password'', ''x'')] []"
  let ?req2 = "post [(''token'', ''PD3YWSBJ'')] [(''uid'', ''3'')]"
  let ?u = "\<lparr>jid = None, username = ''alice'', is_admin = False, pw_hash = ''x'',
             is_totp = True, otp_secret = ''JBSWY3DP''\<rparr>"
  have next3: "next_id (journalists example_state) = 3"
    by (simp add: next_id_def example_state_def example_admin_def example_bob_def
        List.map_filter_def)
  have fresh: "pending example_state = []"
    by (simp add: example_state_def)
  have valid: "validate_on_submit example_env ?req"
    by (simp add: example_env_def post_def)
  have name: "form_get ?req ''username'' = Some ''alice''"
    by (simp add: form_get_def post_def)
  have pw: "form_get ?req ''password'' = Some ''x''"
    by (simp add: form_get_def post_def)
  have built:
    "Journalist_init example_env ''alice'' ''x'' (truthy (form_get ?req ''is_admin''))
       (if truthy (form_get ?req ''is_hotp'')
        then Some (form_get_default ?req ''otp_secret'' '''') else None) = Inr ?u"
    by (simp add: example_env_def example_init_def truthy_def form_get_def post_def)
  have free: "username ?u \<notin> set (map username (journalists example_state))"
    by (simp add: example_state_def example_admin_def example_bob_def)
  have meth: "req_method ?req2 = POST"
    by (simp add: post_def)
  have uid: "args ?req2 ''uid'' = Some ''3''"
    by (simp add: post_def)
  have key: "pk_of_str example_env ''3'' = Some (next_id (journalists example_state))"
    by (simp add: next3 example_env_def example_pk_of_str_def)
  have token: "form ?req2 ''token'' = Some ''PD3YWSBJ''"
    by (simp add: post_def)
  have right: "verify_token example_env (?u\<lparr>jid := Some (next_id (journalists example_state))\<rparr>)
                 ''PD3YWSBJ''"
    by (simp add: example_env_def)
  from add_user_then_two_factor [OF fresh valid name pw built free meth uid key token right]
  have both: "add_user example_env ?req example_state
          = (Redirect (admin_new_user_two_factor (PyInt 3)),
             example_state
               \<lparr>journalists := journalists example_state @ [?u\<lparr>jid := Some 3\<rparr>],
                db_log := db_log example_state @ [SessionAdd, SessionCommit]\<rparr>)
        \<and> fst (new_user_two_factor example_env ?req2
                 (snd (add_user example_env ?req example_state))) = Redirect admin_index"
    unfolding next3 .
  show ?thesis
    using conjunct1 [OF both] conjunct2 [OF both] by (simp add: example_state_def)
qed

text \<open>
  C9. \<^verbatim>\<open>add_user\<close> hands the constructor the \<^verbatim>\<open>otp_secret\<close> form field only
  under a true \<^verbatim>\<open>is_hotp\<close> field. For a request without one (missing or
  empty) the \<^verbatim>\<open>try\<close> block calls the constructor with \<^verbatim>\<open>None\<close> for the
  secret, whatever \<^verbatim>\<open>otp_secret\<close> the form carries, and adds and commits what
  the constructor returns for \<^verbatim>\<open>None\<close>: when the request validates and the
  username is free, the row appended to the table is that object under a fresh
  id. Under \<^verbatim>\<open>is_hotp\<close> the same holds with the submitted field, or the empty
  string when the field is missing, in the place of \<^verbatim>\<open>None\<close>.
\<close>

theorem add_user_otp_secret_only_under_is_hotp:
  "(\<not> truthy (form_get req ''is_hotp'') \<longrightarrow>
      add_user_try E req name pw adm st =
        (case Journalist_init E name pw adm None of
           Inl e \<Rightarrow> (Inl e, st)
         | Inr new_user \<Rightarrow>
             (case db_session_commit (db_session_add new_user st) of
                (Inl e, st') \<Rightarrow> (Inl e, st')
              | (Inr ids, st') \<Rightarrow>
                  (Inr (case ids of [] \<Rightarrow> PyNone | _ \<Rightarrow> PyInt (last ids)), st')))
      \<and> (\<forall>u. pending st = []
            \<longrightarrow> validate_on_submit E req
            \<longrightarrow> form_get req ''username'' = Some name
            \<longrightarrow> form_get req ''password'' = Some pw
            \<longrightarrow> Journalist_init E name pw (truthy (form_get req ''is_admin'')) None = Inr u
            \<longrightarrow> username u \<notin> set (map username (journalists st))
            \<longrightarrow> add_user E req st =
                  (Redirect (admin_new_user_two_factor (PyInt (next_id (journalists st)))),
                   st\<lparr>journalists :=
                        journalists st @ [u\<lparr>jid := Some (next_id (journalists st))\<rparr>],
                      db_log := db_log st @ [SessionAdd, SessionCommit]\<rparr>)))
   \<and> (truthy (form_get req ''is_hotp'') \<longrightarrow>
      add_user_try E req name pw adm st =
        (case Journalist_init E name pw adm (Some (form_get_default req ''otp_secret'' '''')) of
           Inl e \<Rightarrow> (Inl e, st)
         | Inr new_user \<Rightarrow>
             (case db_session_commit (db_session_add new_user st) of
                (Inl e, st') \<Rightarrow> (Inl e, st')
              | (Inr ids, st') \<Rightarrow>
                  (Inr (case ids of [] \<Rightarrow> PyNone | _ \<Rightarrow> PyInt (last ids)), st')))
      \<and> (\<forall>u. pending st = []
            \<longrightarrow> validate_on_submit E req
            \<longrightarrow> form_get req ''username'' = Some name
            \<longrightarrow> form_get req ''password'' = Some pw
            \<longrightarrow> Journalist_init E name pw (truthy (form_get req ''is_admin''))
                   (Some (form_get_default req ''otp_secret'' '''')) = Inr u
            \<longrightarrow> username u \<notin> set (map username (journalists st))
            \<longrightarrow> add_user E req st =
                  (Redirect (admin_new_user_two_factor (PyInt (next_id (journalists st)))),
                   st\<lparr>journalists :=
                        journalists st @ [u\<lparr>jid := Some (next_id (journalists st))\<rparr>],
                      db_log := db_log st @ [SessionAdd, SessionCommit]\<rparr>)))"
proof (intro conjI impI allI)
  assume unset: "\<not> truthy (form_get req ''is_hotp'')"
  then show "add_user_try E req name pw adm st =
        (case Journalist_init E name pw adm None of
           Inl e \<Rightarrow> (Inl e, st)
         | Inr new_user \<Rightarrow>
             (case db_session_commit (db_session_add new_user st) of
                (Inl e, st') \<Rightarrow> (Inl e, st')
              | (Inr ids, st') \<Rightarrow>
                  (Inr (case ids of [] \<Rightarrow> PyNone | _ \<Rightarrow> PyInt (last ids)), st')))"
    by (simp add: add_user_try_def)
next
  fix u
  assume unset: "\<not> truthy (form_get req ''is_hotp'')"
    and fresh: "pending st = []"
    and valid: "validate_on_submit E req"
    and name: "form_get req ''username'' = Some name"
    and pw: "form_get req ''password'' = Some pw"
    and built: "Journalist_init E name pw (truthy (form_get req ''is_admin'')) None = Inr u"
    and free: "username u \<notin> set (map username (journalists st))"
  from unset built
  have "Journalist_init E name pw (truthy (form_get req ''is_admin''))
          (if truthy (form_get req ''is_hotp'')
           then Some (form_get_default req ''otp_secret'' '''') else None) = Inr u"
    by simp
  from add_user_free_eq [OF fresh valid name pw this free]
  show "add_user E req st =
          (Redirect (admin_new_user_two_factor (PyInt (next_id (journalists st)))),
           st\<lparr>journalists := journalists st @ [u\<lparr>jid := Some (next_id (journalists st))\<rparr>],
              db_log := db_log st @ [SessionAdd, SessionCommit]\<rparr>)" .
next
  assume hotp: "truthy (form_get req ''is_hotp'')"
  then show "add_user_try E req name pw adm st =
        (case Journalist_init E name pw adm (Some (form_get_default req ''otp_secret'' '''')) of
           Inl e \<Rightarrow> (Inl e, st)
         | Inr new_user \<Rightarrow>
             (case db_session_commit (db_session_add new_user st) of
                (Inl e, st') \<Rightarrow> (Inl e, st')
              | (Inr ids, st') \<Rightarrow>
                  (Inr (case ids of [] \<Rightarrow> PyNone | _ \<Rightarrow> PyInt (last ids)), st')))"
    by (simp add: add_user_try_def)
next
  fix u
  assume hotp: "truthy (form_get req ''is_hotp'')"
    and fresh: "pending st = []"
    and valid: "validate_on_submit E req"
    and name: "form_get req ''username'' = Some name"
    and pw: "form_get req ''password'' = Some pw"
    and built: "Journalist_init E name pw (truthy (form_get req ''is_admin''))
                  (Some (form_get_default req ''otp_secret'' '''')) = Inr u"
    and free: "username u \<notin> set (map username (journalists st))"
  from hotp built
  have "Journalist_init E name pw (truthy (form_get req ''is_admin''))
          (if truthy (form_get req ''is_hotp'')
           then Some (form_get_default req ''otp_secret'' '''') else None) = Inr u"
    by simp
  from add_user_free_eq [OF fresh valid name pw this free]
  show "add_user E req st =
          (Redirect (admin_new_user_two_factor (PyInt (next_id (journalists st)))),
           st\<lparr>journalists := journalists st @ [u\<lparr>jid := Some (next_id (journalists st))\<rparr>],
              db_log := db_log st @ [SessionAdd, SessionCommit]\<rparr>)" .
qed

theorem add_user_otp_secret_only_under_is_hotp_witness:
  "\<not> truthy (form_get (post [(''username'', ''carol''), (''password'', ''x''),
                             (''otp_secret'', ''deadbeef'')] []) ''is_hotp'')
   \<and> Journalist_init example_env ''carol'' ''x'' False None
       = Inr \<lparr>jid = None, username = ''carol'', is_admin = False, pw_hash = ''x'',
              is_totp = True, otp_secret = ''JBSWY3DP''\<rparr>
   \<and> add_user example_env
       (post [(''username'', ''carol''), (''password'', ''x''), (''otp_secret'', ''deadbeef'')] [])
       example_state
     = (Redirect (admin_new_user_two_factor (PyInt 3)),
        example_state
          \<lparr>journalists :=
             [example_admin, example_bob,
              \<lparr>jid = Some 3, username = ''carol'', is_admin = False, pw_hash = ''x'',
               is_totp = True, otp_secret = ''JBSWY3DP''\<rparr>],
           db_log := [SessionAdd, SessionCommit]\<rparr>)"
proof -
  let ?req = "post [(''username'', ''carol''), (''password'', ''x''),
                    (''otp_secret'', ''deadbeef'')] []"
  let ?u = "\<lparr>jid = None, username = ''carol'', is_admin = False, pw_hash = ''x'',
             is_totp = True, otp_secret = ''JBSWY3DP''\<rparr>"
  have unset: "\<not> truthy (form_get ?req ''is_hotp'')"
    by (simp add: truthy_def form_get_def post_def)
  have next3: "next_id (journalists example_state) = 3"
    by (simp add: next_id_def example_state_def example_admin_def example_bob_def
        List.map_filter_def)
  have fresh: "pending example_state = []"
    by (simp add: example_state_def)
  have valid: "validate_on_submit example_env ?req"
    by (simp add: example_env_def post_def)
  have name: "form_get ?req ''username'' = Some ''carol''"
    by (simp add: form_get_def post_def)
  have pw: "form_get ?req ''password'' = Some ''x''"
    by (simp add: form_get_def post_def)
  have plain: "truthy (form_get ?req ''is_admin'') = False"
    by (simp add: truthy_def form_get_def post_def)
  have answer: "Journalist_init example_env ''carol'' ''x'' False None = Inr ?u"
    by (simp add: example_env_def example_init_def)
  have built: "Journalist_init example_env ''carol'' ''x'' (truthy (form_get ?req ''is_admin''))
                 None = Inr ?u"
    by (simp only: plain answer)
  have free: "username ?u \<notin> set (map username (journalists example_state))"
    by (simp add: example_state_def example_admin_def example_bob_def)
  from add_user_otp_secret_only_under_is_hotp
         [of ?req example_env "''carol''" "''x''" False example_state] unset
  have "\<forall>u. pending example_state = []
            \<longrightarrow> validate_on_submit example_env ?req
            \<longrightarrow> form_get ?req ''username'' = Some ''carol''
            \<longrightarrow> form_get ?req ''password'' = Some ''x''
            \<longrightarrow> Journalist_init example_env ''carol'' ''x''
                   (truthy (form_get ?req ''is_admin'')) None = Inr u
            \<longrightarrow> username u \<notin> set (map username (journalists example_state))
            \<longrightarrow> add_user example_env ?req example_state =
                  (Redirect (admin_new_user_two_factor
                     (PyInt (next_id (journalists example_state)))),
                   example_state
                     \<lparr>journalists := journalists example_state
                          @ [u\<lparr>jid := Some (next_id (journalists example_state))\<rparr>],
                      db_log := db_log example_state @ [SessionAdd, SessionCommit]\<rparr>)"
    by blast
  with fresh valid name pw built free
  have "add_user example_env ?req example_state =
          (Redirect (admin_new_user_two_factor (PyInt (next_id (journalists example_state)))),
           example_state
             \<lparr>journalists := journalists example_state
                  @ [?u\<lparr>jid := Some (next_id (journalists example_state))\<rparr>],
              db_log := db_log example_state @ [SessionAdd, SessionCommit]\<rparr>)"
    by blast
  then have created: "add_user example_env ?req example_state =
          (Redirect (admin_new_user_two_factor (PyInt 3)),
           example_state
             \<lparr>journalists := journalists example_state @ [?u\<lparr>jid := Some 3\<rparr>],
              db_log := db_log example_state @ [SessionAdd, SessionCommit]\<rparr>)"
    unfolding next3 .
  show ?thesis
    using unset answer created by (simp add: example_state_def)
qed

text \<open>
  The same request with \<^verbatim>\<open>is_hotp\<close> set: on the concrete deployment the
  constructor is given \<^verbatim>\<open>deadbeef\<close> and the new row is an HOTP account with
  that secret.
\<close>

lemma add_user_is_hotp_example:
  "journalists (snd (add_user example_env
      (post [(''username'', ''carol''), (''password'', ''x''), (''is_hotp'', ''y''),
             (''otp_secret'', ''deadbeef'')] [])
      example_state))
   = [example_admin, example_bob,
      \<lparr>jid = Some 3, username = ''carol'', is_admin = False, pw_hash = ''x'', is_totp = False,
       otp_secret = ''deadbeef''\<rparr>]"
  by (simp add: add_user_def add_user_try_def form_getitem_def form_get_def form_get_default_def
      post_def example_env_def example_init_def example_state_def example_admin_def
      example_bob_def truthy_def db_session_add_def db_session_commit_def next_id_def
      List.map_filter_def)


subsection \<open>Editing an account\<close>

lemma find_by_id_jid: "find_by_id i rows = Some u \<Longrightarrow> jid u = Some i"
  by (auto simp add: find_by_id_def find_Some_iff)

lemma find_by_id_replaced:
  "find_by_id i rows = Some u \<Longrightarrow> jid v = Some i \<Longrightarrow>
   find_by_id i (map (\<lambda>r. if jid r = Some i then v else r) rows) = Some v"
  by (induction rows) (auto simp add: find_by_id_def split: if_splits)

lemma flush_update_found:
  assumes "find_by_id i rows = Some u" and "jid v = Some i"
    and "flush rows [Update v] = Inr (rows', ids)"
  shows "find_by_id i rows' = Some v"
proof -
  from assms(3) have "rows' = map (\<lambda>r. if jid r = jid v then v else r) rows"
    by (simp split: if_splits)
  with assms(1,2) show ?thesis
    by (simp add: find_by_id_replaced)
qed

lemma edit_user_username_same:
  assumes "form_get req ''username'' = Some (username u)"
  shows "edit_user_username E user_id req (Some u) st =
           (case (if username u = [] then None else check_username_acceptable E (username u)) of
              Some m \<Rightarrow> Inl (Redirect (admin_edit_user user_id),
                             flash (''Invalid username: '' @ m) ''error'' st)
            | None \<Rightarrow> Inr (Some u, st))"
  using assms
  by (simp add: edit_user_username_def truthy_def form_getitem_def form_get_def
      split: option.splits)

lemma edit_user_same_username_eq:
  assumes "req_method req = POST"
    and "find_by_id user_id (journalists st) = Some u"
    and "form_get req ''username'' = Some (username u)"
  shows "edit_user E user_id req st =
           (case (if username u = [] then None else check_username_acceptable E (username u)) of
              Some m \<Rightarrow>
                (Redirect (admin_edit_user user_id),
                 st\<lparr>flashes := flashes st @ [(''Invalid username: '' @ m, ''error'')],
                    db_log := db_log st @ [QueryGet (PyInt user_id)]\<rparr>)
            | None \<Rightarrow>
                (Render ''edit_account.html''
                   [(''user'', TUser (Some (u\<lparr>is_admin := truthy (form_get req ''is_admin'')\<rparr>))),
                    (''password'', TStr (make_password E))],
                 commit_account_changes E (u\<lparr>is_admin := truthy (form_get req ''is_admin'')\<rparr>)
                   (st\<lparr>db_log := db_log st @ [QueryGet (PyInt user_id)],
                       pending := pending st
                           @ [Update (u\<lparr>is_admin := truthy (form_get req ''is_admin'')\<rparr>)]\<rparr>)))"
  using assms(1,2)
  by (simp add: edit_user_def Journalist_query_get_def lookup_pk_def
      edit_user_username_same [OF assms(3)] orm_dirty_def flash_def Let_def
      split: option.splits)

lemma edit_user_same_username_persisted:
  assumes "req_method req = POST"
    and "find_by_id user_id (journalists st) = Some u"
    and "form_get req ''username'' = Some (username u)"
    and "pending st = []"
    and "\<forall>v s. journalists (commit_account_changes E v s) = journalists s
            \<or> (\<exists>ids. flush (journalists s) (pending s)
                        = Inr (journalists (commit_account_changes E v s), ids))"
  shows "map_option username
           (find_by_id user_id (journalists (snd (edit_user E user_id req st))))
         = Some (username u)"
proof (cases "if username u = [] then None else check_username_acceptable E (username u)")
  case (Some m)
  with assms(2) show ?thesis
    by (simp add: edit_user_same_username_eq [OF assms(1-3)])
next
  case None
  let ?v = "u\<lparr>is_admin := truthy (form_get req ''is_admin'')\<rparr>"
  let ?s = "st\<lparr>db_log := db_log st @ [QueryGet (PyInt user_id)],
               pending := pending st @ [Update ?v]\<rparr>"
  have after: "snd (edit_user E user_id req st) = commit_account_changes E ?v ?s"
    using None by (simp add: edit_user_same_username_eq [OF assms(1-3)])
  have key: "jid ?v = Some user_id"
    using find_by_id_jid [OF assms(2)] by simp
  from assms(5) have "journalists (commit_account_changes E ?v ?s) = journalists ?s
      \<or> (\<exists>ids. flush (journalists ?s) (pending ?s)
                  = Inr (journalists (commit_account_changes E ?v ?s), ids))"
    by blast
  then show ?thesis
  proof
    assume "journalists (commit_account_changes E ?v ?s) = journalists ?s"
    with assms(2) after show ?thesis by simp
  next
    assume "\<exists>ids. flush (journalists ?s) (pending ?s)
                     = Inr (journalists (commit_account_changes E ?v ?s), ids)"
    then obtain ids where
      "flush (journalists st) [Update ?v] = Inr (journalists (commit_account_changes E ?v ?s), ids)"
      using assms(4) by auto
    from flush_update_found [OF assms(2) key this] after show ?thesis by simp
  qed
qed

text \<open>
  C6. Take a POST to \<^verbatim>\<open>/edit/<id>\<close> for an existing account that submits the
  account's current username. The view function makes no uniqueness query and
  flashes no username-taken error: either the acceptability check refuses the
  name, and the function flashes that and redirects, or the function goes on
  with the loaded object, sets \<^verbatim>\<open>is_admin\<close> from the form and hands the
  object, its username as it was, to \<^verbatim>\<open>commit_account_changes\<close>. Whenever that
  helper leaves the table as it is or as the flush of the session's unit of work
  makes it, the row under the id has the old username afterwards.
\<close>

theorem edit_user_same_username:
  assumes "req_method req = POST"
    and "find_by_id user_id (journalists st) = Some u"
    and "form_get req ''username'' = Some (username u)"
  shows "edit_user E user_id req st =
           (case (if username u = [] then None else check_username_acceptable E (username u)) of
              Some m \<Rightarrow>
                (Redirect (admin_edit_user user_id),
                 st\<lparr>flashes := flashes st @ [(''Invalid username: '' @ m, ''error'')],
                    db_log := db_log st @ [QueryGet (PyInt user_id)]\<rparr>)
            | None \<Rightarrow>
                (Render ''edit_account.html''
                   [(''user'', TUser (Some (u\<lparr>is_admin := truthy (form_get req ''is_admin'')\<rparr>))),
                    (''password'', TStr (make_password E))],
                 commit_account_changes E (u\<lparr>is_admin := truthy (form_get req ''is_admin'')\<rparr>)
                   (st\<lparr>db_log := db_log st @ [QueryGet (PyInt user_id)],
                       pending := pending st
                           @ [Update (u\<lparr>is_admin := truthy (form_get req ''is_admin'')\<rparr>)]\<rparr>)))
       \<and> username (u\<lparr>is_admin := truthy (form_get req ''is_admin'')\<rparr>) = username u
       \<and> (pending st = []
            \<longrightarrow> (\<forall>v s. journalists (commit_account_changes E v s) = journalists s
                   \<or> (\<exists>ids. flush (journalists s) (pending s)
                               = Inr (journalists (commit_account_changes E v s), ids)))
            \<longrightarrow> map_option username
                  (find_by_id user_id (journalists (snd (edit_user E user_id req st))))
                 = Some (username u))"
  using edit_user_same_username_eq [OF assms] edit_user_same_username_persisted [OF assms]
  by simp

lemma example_commit_account_changes_flushes:
  "journalists (example_commit_account_changes v s) = journalists s
   \<or> (\<exists>ids. flush (journalists s) (pending s)
               = Inr (journalists (example_commit_account_changes v s), ids))"
  by (cases "flush (journalists s) (pending s)")
    (auto simp add: example_commit_account_changes_def db_session_commit_def
      db_session_rollback_def)

theorem edit_user_same_username_witness:
  "req_method (post [(''username'', ''bob''), (''is_admin'', ''y'')] []) = POST
   \<and> find_by_id 2 (journalists example_state) = Some example_bob
   \<and> form_get (post [(''username'', ''bob''), (''is_admin'', ''y'')] []) ''username''
       = Some (username example_bob)
   \<and> edit_user example_env 2 (post [(''username'', ''bob''), (''is_admin'', ''y'')] [])
       example_state
       = (Render ''edit_account.html''
            [(''user'', TUser (Some (example_bob\<lparr>is_admin := True\<rparr>))),
             (''password'', TStr ''correct horse battery staple'')],
          example_state
            \<lparr>journalists := [example_admin, example_bob\<lparr>is_admin := True\<rparr>],
             db_log := [QueryGet (PyInt 2), SessionCommit]\<rparr>)
   \<and> map_option username
        (find_by_id 2 (journalists (snd (edit_user example_env 2
           (post [(''username'', ''bob''), (''is_admin'', ''y'')] []) example_state))))
       = Some ''bob''"
proof -
  let ?req = "post [(''username'', ''bob''), (''is_admin'', ''y'')] []"
  have meth: "req_method ?req = POST"
    by (simp add: post_def)
  have found: "find_by_id 2 (journalists example_state) = Some example_bob"
    by (simp add: example_state_def find_by_id_def example_admin_def example_bob_def)
  have same: "form_get ?req ''username'' = Some (username example_bob)"
    by (simp add: form_get_def post_def example_bob_def)
  have fresh: "pending example_state = []"
    by (simp add: example_state_def)
  have helper: "\<forall>v s. journalists (commit_account_changes example_env v s) = journalists s
      \<or> (\<exists>ids. flush (journalists s) (pending s)
                  = Inr (journalists (commit_account_changes example_env v s), ids))"
    by (simp add: example_env_def example_commit_account_changes_flushes)
  note claim = edit_user_same_username [OF meth found same, of example_env]
  have kept: "map_option username
                (find_by_id 2 (journalists (snd (edit_user example_env 2 ?req example_state))))
              = Some ''bob''"
    using conjunct2 [OF conjunct2 [OF claim]] fresh helper
    by (simp add: example_bob_def)
  have result: "edit_user example_env 2 ?req example_state
       = (Render ''edit_account.html''
            [(''user'', TUser (Some (example_bob\<lparr>is_admin := True\<rparr>))),
             (''password'', TStr ''correct horse battery staple'')],
          example_state
            \<lparr>journalists := [example_admin, example_bob\<lparr>is_admin := True\<rparr>],
             db_log := [QueryGet (PyInt 2), SessionCommit]\<rparr>)"
    using conjunct1 [OF claim]
    by (simp add: example_env_def example_commit_account_changes_def db_session_commit_def
        example_state_def example_admin_def example_bob_def truthy_def form_get_def post_def)
  show ?thesis
    using meth found same kept result by (simp only: simp_thms)
qed


end
